theory Spec2Isabelle
  imports Main "HOL-Library.Word" "HOL-Library.Sublist"
begin

section \<open>AdminUsersPage: the user administration view\<close>

text \<open>
  A shallow embedding of \<^verbatim>\<open>src/pages/AdminUsersPage.tsx\<close>. The component's
  \<^verbatim>\<open>useState\<close> cells form one record, each event handler and effect is a function
  from the state (and the answers of the backend client) to the next state, and the
  returned JSX is a value of a small datatype. An asynchronous handler takes two states:
  the state of the render that created it, which its closure reads, and the state
  current when its awaits have resolved, whose cells its \<^verbatim>\<open>set...\<close> calls replace.
\<close>

subsection \<open>Strings\<close>

text \<open>
  A JavaScript string is a sequence of UTF-16 code units and \<^verbatim>\<open>===\<close> on strings
  compares these sequences. \<open>js\<close> writes an ASCII literal of the source as such a sequence.
\<close>

type_synonym code_unit = "16 word"
type_synonym jsstring = "code_unit list"

definition js :: "string \<Rightarrow> jsstring" where
  "js s = map of_char s"

text \<open>
  \<^verbatim>\<open>String.prototype.includes(t)\<close> with the default position 0: some index \<open>i\<close>
  with \<open>i + length t \<le> length s\<close> has the code units of \<open>t\<close> at \<open>s[i..]\<close>.
  \<open>occursAt s t\<close> compares at index 0, \<open>includes_str\<close> walks the indices in ascending order.
\<close>

fun occursAt :: "jsstring \<Rightarrow> jsstring \<Rightarrow> bool" where
  "occursAt s [] = True"
| "occursAt [] (c # t) = False"
| "occursAt (d # s) (c # t) = (d = c \<and> occursAt s t)"

fun includes_str :: "jsstring \<Rightarrow> jsstring \<Rightarrow> bool" where
  "includes_str [] t = occursAt [] t"
| "includes_str (d # s) t = (occursAt (d # s) t \<or> includes_str s t)"

text \<open>
  \<^verbatim>\<open>String.prototype.toLowerCase\<close> is the engine's Unicode lower-casing; its tables
  are no part of the repository, so every definition below takes it as the parameter
  \<open>toLowerCase\<close>. \<open>toLowerCase_ascii\<close> is what the built-in computes on strings of
  ASCII code units; it instantiates the parameter in the concrete runs further down.
\<close>

definition toLowerCase_ascii :: "jsstring \<Rightarrow> jsstring" where
  "toLowerCase_ascii s = map (\<lambda>c. if 0x41 \<le> c \<and> c \<le> 0x5A then c + 0x20 else c) s"

subsection \<open>Data\<close>

text \<open>
  \<^verbatim>\<open>editForm\<close>: the three keys the modal edits. \<^verbatim>\<open>UserRole\<close> is erased at run
  time; a role is the string the database or the select control delivers.
\<close>

record edit_form =
  username :: jsstring
  email :: jsstring
  role :: jsstring

text \<open>
  \<^verbatim>\<open>UserType\<close> (declared in \<^verbatim>\<open>../types\<close>): the page reads \<^verbatim>\<open>id\<close>,
  \<^verbatim>\<open>username\<close>, \<^verbatim>\<open>email\<close>, \<^verbatim>\<open>role\<close> and \<^verbatim>\<open>created_at\<close>. Any further
  column of a row lives in the record's extension slot \<open>user.more\<close>.
\<close>

record user =
  id' :: jsstring
  username :: jsstring
  email :: jsstring
  role :: jsstring
  created_at :: jsstring

text \<open>The error object of the backend client; the page reads its \<^verbatim>\<open>message\<close>.\<close>

record api_error =
  message :: jsstring

text \<open>
  What \<^verbatim>\<open>supabase.from('users').select('*').order(...)\<close> resolves to: the object
  \<^verbatim>\<open>{ data, error }\<close>, either of which may be \<^verbatim>\<open>null\<close>.
\<close>

record 'a fetch_response =
  data :: "'a user_scheme list option"
  error :: "api_error option"

text \<open>The \<^verbatim>\<open>useState\<close> cells of the component, in declaration order.\<close>

record 'a page_state =
  users :: "'a user_scheme list"
  filteredUsers :: "'a user_scheme list"
  searchTerm :: jsstring
  filterRole :: jsstring
  filterStatus :: jsstring
  isLoading :: bool
  showFilters :: bool
  error :: "jsstring option"
  isModalOpen :: bool
  selectedUser :: "'a user_scheme option"
  editForm :: edit_form

definition initial_state :: "'a page_state" where
  "initial_state =
     \<lparr> users = [], filteredUsers = [], searchTerm = js '''', filterRole = js '''',
       filterStatus = js '''', isLoading = True, showFilters = False, error = None,
       isModalOpen = False, selectedUser = None,
       editForm = \<lparr> edit_form.username = js '''', edit_form.email = js '''',
                    edit_form.role = js '''' \<rparr> \<rparr>"

subsection \<open>The filter effect\<close>

text \<open>
  The callback handed to \<^verbatim>\<open>users.filter\<close> (lines 55-63) and the effect around it
  (lines 54-66), which stores the result in \<^verbatim>\<open>filteredUsers\<close>.
\<close>

definition matches ::
  "(jsstring \<Rightarrow> jsstring) \<Rightarrow> jsstring \<Rightarrow> jsstring \<Rightarrow> jsstring \<Rightarrow> 'a user_scheme \<Rightarrow> bool" where
  "matches toLowerCase searchTerm' filterRole' filterStatus' u =
     (let matchesSearch =
            (includes_str (toLowerCase (user.username u)) (toLowerCase searchTerm') \<or>
             includes_str (toLowerCase (user.email u)) (toLowerCase searchTerm'));
          matchesRole = (filterRole' = js '''' \<or> user.role u = filterRole');
          matchesStatus = (filterStatus' = js '''' \<or> filterStatus' = js ''active'')
      in matchesSearch \<and> matchesRole \<and> matchesStatus)"

definition filterUsers ::
  "(jsstring \<Rightarrow> jsstring) \<Rightarrow> 'a user_scheme list \<Rightarrow> jsstring \<Rightarrow> jsstring \<Rightarrow> jsstring
     \<Rightarrow> 'a user_scheme list" where
  "filterUsers toLowerCase us searchTerm' filterRole' filterStatus' =
     filter (matches toLowerCase searchTerm' filterRole' filterStatus') us"

definition filterEffect :: "(jsstring \<Rightarrow> jsstring) \<Rightarrow> 'a page_state \<Rightarrow> 'a page_state" where
  "filterEffect toLowerCase s =
     s\<lparr> filteredUsers :=
          filterUsers toLowerCase (users s) (searchTerm s) (filterRole s) (filterStatus s) \<rparr>"

subsection \<open>Loading the list\<close>

text \<open>
  The three messages the page can put into \<^verbatim>\<open>error\<close> are Russian string literals;
  they are given here by their UTF-16 code units (lines 45, 154 and 177).
\<close>

definition fetch_failed_message :: jsstring where
  "fetch_failed_message =
    [0x41D, 0x435, 0x20, 0x443, 0x434, 0x430, 0x43B, 0x43E, 0x441, 0x44C, 0x20, 0x437,
     0x430, 0x433, 0x440, 0x443, 0x437, 0x438, 0x442, 0x44C, 0x20, 0x43F, 0x43E, 0x43B,
     0x44C, 0x437, 0x43E, 0x432, 0x430, 0x442, 0x435, 0x43B, 0x435, 0x439, 0x2E, 0x20,
     0x41F, 0x440, 0x43E, 0x432, 0x435, 0x440, 0x44C, 0x442, 0x435, 0x20, 0x43F, 0x43E,
     0x434, 0x43A, 0x43B, 0x44E, 0x447, 0x435, 0x43D, 0x438, 0x435, 0x20, 0x43A, 0x20,
     0x438, 0x43D, 0x442, 0x435, 0x440, 0x43D, 0x435, 0x442, 0x443, 0x2E]"

definition update_failed_prefix :: jsstring where
  "update_failed_prefix =
    [0x41E, 0x448, 0x438, 0x431, 0x43A, 0x430, 0x20, 0x43F, 0x440, 0x438, 0x20, 0x43E,
     0x431, 0x43D, 0x43E, 0x432, 0x43B, 0x435, 0x43D, 0x438, 0x438, 0x20, 0x43F, 0x43E,
     0x43B, 0x44C, 0x437, 0x43E, 0x432, 0x430, 0x442, 0x435, 0x43B, 0x44F, 0x3A, 0x20]"


text \<open>
  \<^verbatim>\<open>fetchUsers\<close> (lines 28-49), from the call to the end of its \<^verbatim>\<open>finally\<close>
  block; \<open>r\<close> is what the awaited query resolved to. A truthy \<^verbatim>\<open>error\<close> is thrown
  before \<^verbatim>\<open>data\<close> is looked at, and an array, empty or not, is truthy. A query
  whose promise rejects reaches the same \<^verbatim>\<open>catch\<close> and is an \<open>r\<close> with an error.
\<close>

definition fetchUsers :: "'a fetch_response \<Rightarrow> 'a page_state \<Rightarrow> 'a page_state" where
  "fetchUsers r s =
     (let s1 = s\<lparr> isLoading := True, page_state.error := None \<rparr>;
          s2 = (case fetch_response.error r of
                  Some e \<Rightarrow> s1\<lparr> page_state.error := Some fetch_failed_message \<rparr>
                | None \<Rightarrow>
                    (case data r of
                       Some d \<Rightarrow> s1\<lparr> users := d, filteredUsers := d \<rparr>
                     | None \<Rightarrow> s1))
      in s2\<lparr> isLoading := False \<rparr>)"

subsection \<open>Editing\<close>

definition openEditModal :: "'a user_scheme \<Rightarrow> 'a page_state \<Rightarrow> 'a page_state" where
  "openEditModal u s =
     s\<lparr> selectedUser := Some u,
        editForm := \<lparr> edit_form.username = user.username u, edit_form.email = user.email u,
                      edit_form.role = user.role u \<rparr>,
        isModalOpen := True \<rparr>"

text \<open>The object spread \<^verbatim>\<open>{ ...user, ...editForm }\<close> of line 148.\<close>

definition spread :: "'a user_scheme \<Rightarrow> edit_form \<Rightarrow> 'a user_scheme" where
  "spread u f =
     u\<lparr> user.username := edit_form.username f, user.email := edit_form.email f,
        user.role := edit_form.role f \<rparr>"

text \<open>
  \<^verbatim>\<open>handleSaveChanges\<close> (lines 118-156). The function is created by a render and
  closes over that render's \<^verbatim>\<open>selectedUser\<close>, \<^verbatim>\<open>editForm\<close> and \<^verbatim>\<open>users\<close>: \<open>c\<close>
  is the state of that render. Its \<^verbatim>\<open>set...\<close> calls run after the awaits and replace
  cells of the state current then: \<open>s\<close>. \<open>authError\<close> and \<open>dbError\<close> are the failures
  of the two awaited updates (\<open>None\<close> when the call succeeded); the second update is
  only issued, and its answer only read, after the first succeeded. Both a returned
  \<^verbatim>\<open>error\<close> and a rejected promise end in the same \<^verbatim>\<open>catch\<close>.
\<close>

definition handleSaveChanges ::
  "api_error option \<Rightarrow> api_error option \<Rightarrow> 'a page_state \<Rightarrow> 'a page_state \<Rightarrow> 'a page_state" where
  "handleSaveChanges authError dbError c s =
     (case selectedUser c of
        None \<Rightarrow> s
      | Some sel \<Rightarrow>
          (case authError of
             Some e \<Rightarrow> s\<lparr> page_state.error := Some (update_failed_prefix @ message e) \<rparr>
           | None \<Rightarrow>
               (case dbError of
                  Some e \<Rightarrow> s\<lparr> page_state.error := Some (update_failed_prefix @ message e) \<rparr>
                | None \<Rightarrow>
                    s\<lparr> users := map (\<lambda>u. if id' u = id' sel then spread u (editForm c) else u)
                                    (users c),
                       isModalOpen := False \<rparr>)))"

subsection \<open>Deleting\<close>


subsection \<open>Rendering\<close>

text \<open>
  What the component returns. \<open>Navigate\<close> is the router's redirect and has no children.
  \<open>Layout\<close> carries the parts of the page that depend on the state: the error banner
  (shown when \<^verbatim>\<open>error\<close> is truthy), whether the filter panel is open, the table
  region and the edit modal.
\<close>

datatype 'a table_region = Loading | NotFound | Table "'a user_scheme list"

datatype 'a element =
    Navigate jsstring
  | Layout "jsstring option" bool "'a table_region" "edit_form option"

text \<open>
  The effects a render registers with \<^verbatim>\<open>useEffect\<close>. The access check of line 23
  returns before either call is reached.
\<close>

datatype effect = FetchUsers | FilterUsers

definition banner :: "'a page_state \<Rightarrow> jsstring option" where
  "banner s =
     (case page_state.error s of
        None \<Rightarrow> None
      | Some m \<Rightarrow> if m = js '''' then None else Some m)"

definition tableRegion :: "'a page_state \<Rightarrow> 'a table_region" where
  "tableRegion s =
     (if isLoading s then Loading
      else if length (filteredUsers s) = 0 then NotFound
      else Table (filteredUsers s))"

definition modal :: "'a page_state \<Rightarrow> edit_form option" where
  "modal s =
     (if isModalOpen s then
        (case selectedUser s of None \<Rightarrow> None | Some sel \<Rightarrow> Some (editForm s))
      else None)"

text \<open>
  The component function. \<open>cur\<close> is \<^verbatim>\<open>user\<close> of \<^verbatim>\<open>useAuthStore()\<close>, whose
  store is outside this file; the page reads only its \<^verbatim>\<open>role\<close>.
\<close>

definition AdminUsersPage ::
  "'b user_scheme option \<Rightarrow> 'a page_state \<Rightarrow> 'a element \<times> effect list" where
  "AdminUsersPage cur s =
     (case cur of
        None \<Rightarrow> (Navigate (js ''/''), [])
      | Some me \<Rightarrow>
          if user.role me \<noteq> js ''admin'' then (Navigate (js ''/''), [])
          else (Layout (banner s) (showFilters s) (tableRegion s) (modal s),
                [FetchUsers, FilterUsers]))"

subsection \<open>The filter criteria in the words of the specification\<close>

text \<open>
  "Case-insensitively contains": the lower-cased text has the lower-cased search text
  as a contiguous block of code units. A filter is "empty" when it is the empty string.
\<close>

definition contains_ci :: "(jsstring \<Rightarrow> jsstring) \<Rightarrow> jsstring \<Rightarrow> jsstring \<Rightarrow> bool" where
  "contains_ci toLowerCase text sub = sublist (toLowerCase sub) (toLowerCase text)"

definition spec_matches ::
  "(jsstring \<Rightarrow> jsstring) \<Rightarrow> jsstring \<Rightarrow> jsstring \<Rightarrow> jsstring \<Rightarrow> 'a user_scheme \<Rightarrow> bool" where
  "spec_matches toLowerCase search roleFilter statusFilter R =
     ((contains_ci toLowerCase (user.username R) search \<or>
       contains_ci toLowerCase (user.email R) search) \<and>
      (roleFilter = [] \<or> user.role R = roleFilter) \<and>
      (statusFilter = [] \<or> statusFilter = js ''active''))"

subsection \<open>Sample data\<close>

text \<open>Two rows, newest first, and the page after they have been loaded.\<close>

definition example_alice :: user where
  "example_alice =
     \<lparr> id' = js ''u1'', username = js ''Alice'', email = js ''alice@example.com'',
       role = js ''admin'', created_at = js ''2024-02-01'' \<rparr>"

definition example_bob :: user where
  "example_bob =
     \<lparr> id' = js ''u2'', username = js ''bob'', email = js ''Bob@Example.com'',
       role = js ''user'', created_at = js ''2024-01-01'' \<rparr>"

definition example_loaded :: "unit page_state" where
  "example_loaded =
     fetchUsers \<lparr> data = Some [example_alice, example_bob], fetch_response.error = None \<rparr>
       initial_state"

definition example_failure :: api_error where
  "example_failure = \<lparr> message = js ''timeout'' \<rparr>"

text \<open>
  The modal opened on bob's row and the role select changed to \<^verbatim>\<open>moderator\<close>
  (the \<^verbatim>\<open>onChange\<close> of line 338).
\<close>

definition example_editing :: "unit page_state" where
  "example_editing =
     (let s = openEditModal example_bob example_loaded
      in s\<lparr> editForm := (editForm s)\<lparr> edit_form.role := js ''moderator'' \<rparr> \<rparr>)"





section \<open>Properties\<close>

subsection \<open>What \<open>includes_str\<close> computes\<close>

lemma occursAt_iff: "occursAt s t \<longleftrightarrow> (\<exists>q. s = t @ q)"
  by (induction s t rule: occursAt.induct) auto

lemma includes_str_iff: "includes_str s t \<longleftrightarrow> (\<exists>p q. s = p @ t @ q)"
proof (induction s)
  case Nil
  show ?case by (cases t) auto
next
  case (Cons d s)
  have "(\<exists>p q. d # s = p @ t @ q) \<longleftrightarrow> (\<exists>q. d # s = t @ q) \<or> (\<exists>p q. s = p @ t @ q)"
  proof
    assume "\<exists>p q. d # s = p @ t @ q"
    then obtain p q where pq: "d # s = p @ t @ q" by blast
    show "(\<exists>q. d # s = t @ q) \<or> (\<exists>p q. s = p @ t @ q)"
    proof (cases p)
      case Nil
      with pq show ?thesis by auto
    next
      case (Cons a p')
      with pq have "s = p' @ t @ q" by simp
      then show ?thesis by blast
    qed
  next
    assume "(\<exists>q. d # s = t @ q) \<or> (\<exists>p q. s = p @ t @ q)"
    then show "\<exists>p q. d # s = p @ t @ q"
    proof
      assume "\<exists>q. d # s = t @ q"
      then obtain q where "d # s = [] @ t @ q" by auto
      then show ?thesis by blast
    next
      assume "\<exists>p q. s = p @ t @ q"
      then obtain p q where "d # s = (d # p) @ t @ q" by auto
      then show ?thesis by blast
    qed
  qed
  with Cons show ?case by (simp add: occursAt_iff)
qed

lemma includes_str_sublist: "includes_str s t \<longleftrightarrow> sublist t s"
  by (simp add: includes_str_iff sublist_def)

lemma includes_str_empty: "includes_str s []"
  by (induction s) simp_all

lemma js_empty: "js '''' = []"
  by (simp add: js_def)

lemma matches_spec:
  "matches toLowerCase search roleFilter statusFilter u
     \<longleftrightarrow> spec_matches toLowerCase search roleFilter statusFilter u"
  by (simp add: matches_def spec_matches_def contains_ci_def includes_str_sublist js_empty)

lemma count_list_filter_le: "count_list (filter P xs) x \<le> count_list xs x"
  by (induction xs) auto

subsection \<open>Filtering\<close>

text \<open>
  C1. The list the filter effect derives consists of exactly the records of the user
  list whose username or email case-insensitively contains the search text, whose role
  equals the role filter unless that filter is empty, and only if the status filter is
  empty or "active"; they come in the order of the user list.
\<close>

theorem filtered_exactly_the_matching_records:
  "filteredUsers (filterEffect toLowerCase s) =
     filter (spec_matches toLowerCase (searchTerm s) (filterRole s) (filterStatus s)) (users s)
   \<and> (\<forall>R. R \<in> set (filteredUsers (filterEffect toLowerCase s)) \<longleftrightarrow>
            R \<in> set (users s) \<and>
            spec_matches toLowerCase (searchTerm s) (filterRole s) (filterStatus s) R)"
proof -
  have eq: "matches toLowerCase (searchTerm s) (filterRole s) (filterStatus s) =
        spec_matches toLowerCase (searchTerm s) (filterRole s) (filterStatus s)"
    by (rule ext) (rule matches_spec)
  show ?thesis
    unfolding filterEffect_def filterUsers_def eq by simp
qed

theorem filtered_exactly_the_matching_records_witness:
  "filter (spec_matches toLowerCase_ascii (js ''ALI'') (js '''') (js ''active''))
     [example_alice, example_bob] = [example_alice]"
  using filtered_exactly_the_matching_records
    [of toLowerCase_ascii "example_loaded\<lparr> searchTerm := js ''ALI'', filterStatus := js ''active'' \<rparr>"]
  by (simp add: filterEffect_def filterUsers_def matches_def example_loaded_def fetchUsers_def
      initial_state_def example_alice_def example_bob_def js_def toLowerCase_ascii_def)

text \<open>
  C2, as the code has it. The status filter values \<^verbatim>\<open>''\<close> and \<^verbatim>\<open>'active'\<close> give the
  same filtered list, the one obtained with no status filter; with any other value,
  such as \<^verbatim>\<open>'blocked'\<close>, no record matches and the filtered list is empty.
\<close>

theorem status_filter_effect:
  "(filterStatus' = js '''' \<or> filterStatus' = js ''active'' \<longrightarrow>
      filterUsers toLowerCase us searchTerm' filterRole' filterStatus' =
      filterUsers toLowerCase us searchTerm' filterRole' (js ''''))
   \<and> (filterStatus' \<noteq> js '''' \<and> filterStatus' \<noteq> js ''active'' \<longrightarrow>
      filterUsers toLowerCase us searchTerm' filterRole' filterStatus' = [])"
proof -
  have same: "filter (matches toLowerCase searchTerm' filterRole' filterStatus') us =
              filter (matches toLowerCase searchTerm' filterRole' (js '''')) us"
    if "filterStatus' = js '''' \<or> filterStatus' = js ''active''"
    using that by (intro filter_cong) (auto simp: matches_def)
  have none: "filter (matches toLowerCase searchTerm' filterRole' filterStatus') us = []"
    if "filterStatus' \<noteq> js ''''" and "filterStatus' \<noteq> js ''active''"
    using that by (simp add: matches_def)
  show ?thesis
    unfolding filterUsers_def using same none by blast
qed

theorem status_filter_effect_witness:
  "filterUsers toLowerCase_ascii [example_alice, example_bob] (js '''') (js '''') (js ''active'') =
     filterUsers toLowerCase_ascii [example_alice, example_bob] (js '''') (js '''') (js '''')
   \<and> js ''blocked'' \<noteq> js '''' \<and> js ''blocked'' \<noteq> js ''active''
   \<and> filterUsers toLowerCase_ascii [example_alice, example_bob] (js '''') (js '''') (js ''blocked'') = []"
  using status_filter_effect
      [of "js ''active''" toLowerCase_ascii "[example_alice, example_bob]" "js ''''" "js ''''"]
    status_filter_effect
      [of "js ''blocked''" toLowerCase_ascii "[example_alice, example_bob]" "js ''''" "js ''''"]
  by (simp add: js_def)

text \<open>
  C2, as the claim states it, fails: with the one-row list of bob, the status filter
  \<^verbatim>\<open>'blocked'\<close> (an option of the status select) gives the empty list, the empty
  status filter gives the row.
\<close>

theorem status_filter_noop_counterexample:
  "filterUsers toLowerCase_ascii [example_bob] (js '''') (js '''') (js ''blocked'') \<noteq>
   filterUsers toLowerCase_ascii [example_bob] (js '''') (js '''') (js '''')"
  by (simp add: filterUsers_def matches_def js_def toLowerCase_ascii_def example_bob_def)

text \<open>
  C3. Filtering is idempotent: filtering the filtered list again by the same criteria
  gives the filtered list.
\<close>

theorem filterUsers_idempotent:
  "filterUsers toLowerCase (filterUsers toLowerCase L searchTerm' filterRole' filterStatus')
     searchTerm' filterRole' filterStatus' =
   filterUsers toLowerCase L searchTerm' filterRole' filterStatus'"
  by (simp add: filterUsers_def)

theorem filterUsers_idempotent_witness:
  "filterUsers toLowerCase_ascii
     (filterUsers toLowerCase_ascii [example_alice, example_bob] (js ''EXAMPLE'') (js ''user'') (js ''''))
     (js ''EXAMPLE'') (js ''user'') (js '''') = [example_bob]"
  using filterUsers_idempotent
    [of toLowerCase_ascii "[example_alice, example_bob]" "js ''EXAMPLE''" "js ''user''" "js ''''"]
  by (simp add: filterUsers_def matches_def js_def toLowerCase_ascii_def
      example_alice_def example_bob_def)

text \<open>
  C9. With the empty search text and both filters empty every record matches and the
  filtered list is the user list. The one fact used about the engine's lower-casing is
  that it maps the empty string to the empty string.
\<close>

theorem empty_criteria_identity:
  assumes "toLowerCase (js '''') = js ''''"
  shows "(\<forall>u. matches toLowerCase (js '''') (js '''') (js '''') u) \<and>
         filterUsers toLowerCase us (js '''') (js '''') (js '''') = us"
  using assms by (simp add: filterUsers_def matches_def js_empty includes_str_empty)

theorem empty_criteria_identity_witness:
  "toLowerCase_ascii (js '''') = js '''' \<and>
   filterUsers toLowerCase_ascii [example_alice, example_bob] (js '''') (js '''') (js '''') =
     [example_alice, example_bob]"
proof -
  have h: "toLowerCase_ascii (js '''') = js ''''"
    by (simp add: toLowerCase_ascii_def js_def)
  from empty_criteria_identity [of toLowerCase_ascii "[example_alice, example_bob]", OF h] h
  show ?thesis by blast
qed

text \<open>
  C10. The filtered list is a subsequence of the user list: it is obtained by deleting
  entries, so the order is kept, every filtered record is a record of the user list, and
  no record occurs more often than it does there.
\<close>

theorem filtered_is_subsequence:
  "subseq (filterUsers toLowerCase us searchTerm' filterRole' filterStatus') us \<and>
   set (filterUsers toLowerCase us searchTerm' filterRole' filterStatus') \<subseteq> set us \<and>
   (\<forall>u. count_list (filterUsers toLowerCase us searchTerm' filterRole' filterStatus') u
           \<le> count_list us u)"
  by (simp add: filterUsers_def count_list_filter_le)

theorem filtered_is_subsequence_witness:
  "subseq [example_bob] [example_alice, example_bob]"
  using filtered_is_subsequence
    [of toLowerCase_ascii "[example_alice, example_bob]" "js ''bOb''" "js ''''" "js ''''"]
  by (simp add: filterUsers_def matches_def js_def toLowerCase_ascii_def
      example_alice_def example_bob_def)

subsection \<open>Saving an edit\<close>

lemma update_failed_prefix_nonempty: "update_failed_prefix @ m \<noteq> js ''''"
  by (simp add: update_failed_prefix_def js_def)

lemma includes_str_suffix: "includes_str (p @ m) m"
proof -
  have "p @ m = p @ m @ []" by simp
  then show ?thesis unfolding includes_str_iff by blast
qed

lemma users_example_loaded: "users example_loaded = [example_alice, example_bob]"
  by (simp add: example_loaded_def fetchUsers_def)

lemma users_example_editing: "users example_editing = [example_alice, example_bob]"
  by (simp add: example_editing_def openEditModal_def Let_def users_example_loaded)

lemma selected_example_editing: "selectedUser example_editing = Some example_bob"
  by (simp add: example_editing_def openEditModal_def Let_def)



text \<open>
  C4. When the handler's render had a record selected and the identity-store update
  fails, or it succeeds and the profile-store update fails, the save changes nothing of
  the current state but \<^verbatim>\<open>error\<close>: the user list and the filtered list are as they
  are, the modal stays as it is, and the message set (and shown in the banner) is the
  fixed prefix followed by the failure's message.
\<close>

theorem save_failure_aborts:
  assumes "selectedUser c = Some sel"
    and "authError = Some e \<or> (authError = None \<and> dbError = Some e)"
  shows "handleSaveChanges authError dbError c s =
           s\<lparr> page_state.error := Some (update_failed_prefix @ message e) \<rparr>
       \<and> users (handleSaveChanges authError dbError c s) = users s
       \<and> filteredUsers (handleSaveChanges authError dbError c s) = filteredUsers s
       \<and> isModalOpen (handleSaveChanges authError dbError c s) = isModalOpen s
       \<and> page_state.error (handleSaveChanges authError dbError c s) =
           Some (update_failed_prefix @ message e)
       \<and> includes_str (update_failed_prefix @ message e) (message e)
       \<and> banner (handleSaveChanges authError dbError c s) =
           Some (update_failed_prefix @ message e)"
proof -
  have step: "handleSaveChanges authError dbError c s =
                s\<lparr> page_state.error := Some (update_failed_prefix @ message e) \<rparr>"
    using assms by (auto simp: handleSaveChanges_def)
  show ?thesis
    unfolding step
    by (simp add: banner_def update_failed_prefix_nonempty includes_str_suffix)
qed

theorem save_failure_aborts_witness:
  "selectedUser example_editing = Some example_bob
   \<and> users (handleSaveChanges (Some example_failure) None example_editing example_editing) =
       [example_alice, example_bob]
   \<and> users (handleSaveChanges None (Some example_failure) example_editing example_editing) =
       [example_alice, example_bob]
   \<and> page_state.error
       (handleSaveChanges None (Some example_failure) example_editing example_editing) =
       Some (update_failed_prefix @ js ''timeout'')"
proof -
  note sel = selected_example_editing
  note us = users_example_editing
  have a: "Some example_failure = Some example_failure \<or>
           (Some example_failure = None \<and> None = Some example_failure)"
    by simp
  have b: "None = Some example_failure \<or>
           ((None :: api_error option) = None \<and> Some example_failure = Some example_failure)"
    by simp
  from save_failure_aborts [OF sel a, of example_editing]
       save_failure_aborts [OF sel b, of example_editing] sel us
  show ?thesis by (simp add: example_failure_def)
qed




subsection \<open>Deleting\<close>






subsection \<open>Loading\<close>

text \<open>
  C7. When the query answers with an error, whatever \<^verbatim>\<open>data\<close> it carries, the fetch
  leaves both lists as they were, sets the fixed message and ends with
  \<^verbatim>\<open>isLoading\<close> false. Started from the state of the mount both lists are empty, and
  the page of an admin shows the banner and the "not found" line instead of table rows;
  re-running the filter effect keeps the filtered list empty.
\<close>

theorem fetch_failure_shows_error_and_no_rows:
  assumes "fetch_response.error r = Some e"
  shows "users (fetchUsers r s) = users s
       \<and> filteredUsers (fetchUsers r s) = filteredUsers s
       \<and> page_state.error (fetchUsers r s) = Some fetch_failed_message
       \<and> \<not> isLoading (fetchUsers r s)
       \<and> users (fetchUsers r initial_state) = []
       \<and> filteredUsers (fetchUsers r initial_state) = []
       \<and> filteredUsers (filterEffect toLowerCase (fetchUsers r initial_state)) = []
       \<and> (user.role me = js ''admin'' \<longrightarrow>
            fst (AdminUsersPage (Some me) (fetchUsers r initial_state)) =
              Layout (Some fetch_failed_message) False NotFound None)"
proof -
  have msg: "fetch_failed_message \<noteq> js ''''"
    by (simp add: fetch_failed_message_def js_def)
  show ?thesis
    using assms msg
    by (simp add: fetchUsers_def initial_state_def filterEffect_def filterUsers_def
        AdminUsersPage_def banner_def tableRegion_def modal_def)
qed

theorem fetch_failure_shows_error_and_no_rows_witness:
  "fetch_response.error \<lparr> data = Some [example_bob], fetch_response.error = Some example_failure \<rparr>
     = Some example_failure
   \<and> user.role example_alice = js ''admin''
   \<and> AdminUsersPage (Some example_alice)
        (fetchUsers \<lparr> data = Some [example_bob], fetch_response.error = Some example_failure \<rparr>
           (initial_state :: unit page_state)) =
      (Layout (Some fetch_failed_message) False NotFound None, [FetchUsers, FilterUsers])"
proof -
  have h: "fetch_response.error
             \<lparr> data = Some [example_bob], fetch_response.error = Some example_failure \<rparr>
           = Some example_failure"
    by simp
  have adm: "user.role example_alice = js ''admin''"
    by (simp add: example_alice_def)
  from fetch_failure_shows_error_and_no_rows
         [OF h, of "initial_state :: unit page_state" toLowerCase_ascii example_alice] adm h
  show ?thesis
    by (auto simp: AdminUsersPage_def)
qed

subsection \<open>Access control\<close>

text \<open>
  C8. When the session has no user, or a user whose role is not \<^verbatim>\<open>admin\<close>, the
  component returns the redirect to \<^verbatim>\<open>/\<close> and nothing else, whatever the state:
  no layout, banner, table or modal, and no effect (hence no fetch) is registered.
\<close>

theorem non_admin_is_redirected:
  assumes "cur = None \<or> (\<exists>me. cur = Some me \<and> user.role me \<noteq> js ''admin'')"
  shows "AdminUsersPage cur s = (Navigate (js ''/''), [])"
  using assms by (auto simp: AdminUsersPage_def)

theorem non_admin_is_redirected_witness:
  "user.role example_bob \<noteq> js ''admin''
   \<and> AdminUsersPage (Some example_bob) example_loaded = (Navigate (js ''/''), [])
   \<and> AdminUsersPage (None :: user option) example_loaded = (Navigate (js ''/''), [])"
proof -
  have nb: "user.role example_bob \<noteq> js ''admin''"
    by (simp add: example_bob_def js_def)
  have a: "Some example_bob = None \<or>
           (\<exists>me. Some example_bob = Some me \<and> user.role me \<noteq> js ''admin'')"
    using nb by simp
  have b: "(None :: user option) = None \<or>
           (\<exists>me. (None :: user option) = Some me \<and> user.role me \<noteq> js ''admin'')"
    by simp
  from non_admin_is_redirected [OF a, of example_loaded]
       non_admin_is_redirected [OF b, of example_loaded] nb
  show ?thesis by simp
qed

end
